theory Spec2Isabelle
  imports Main "HOL-Library.Word" "HOL-Library.AList"
begin

section \<open>Strings and request bodies\<close>

text \<open>
  A JavaScript string is a sequence of UTF-16 code units, and \<^verbatim>\<open>value.length\<close>, which the
  validation library's length rules read, counts code units. \<open>js\<close> embeds an ASCII literal
  of the source.
\<close>

type_synonym code_unit = "16 word"

type_synonym jsstring = "code_unit list"

definition js :: "string \<Rightarrow> jsstring" where
  "js s = map of_char s"

text \<open>
  A field of the request body as the validators see it: absent (\<^verbatim>\<open>undefined\<close> or
  \<^verbatim>\<open>null\<close>), a value that is not a string, or a string. Properties of the body that the
  schema does not name are dropped by the validator and never reach the handlers.
\<close>

datatype raw = Undefined | NotString | Str jsstring

record request =
  body_name :: raw
  body_email :: raw
  body_password :: raw

section \<open>The persisted schema\<close>

text \<open>
  The \<^verbatim>\<open>users\<close> table of the migration: an auto-increment \<^verbatim>\<open>id\<close>, a nullable
  \<^verbatim>\<open>name\<close>, a unique \<^verbatim>\<open>email\<close>, the \<^verbatim>\<open>password\<close> column (which holds the hash), the
  nullable columns \<^verbatim>\<open>status\<close> (default \<^verbatim>\<open>'active'\<close>), \<^verbatim>\<open>isAdmin\<close> (default false) and
  \<^verbatim>\<open>deletedAt\<close> (default null), and the two timestamps. A timestamp read back from the
  store is a date object, which is truthy whatever its value.
\<close>

type_synonym timestamp = nat

record user =
  user_id :: nat
  name :: "jsstring option"
  email :: jsstring
  password :: jsstring
  status :: "jsstring option"
  isAdmin :: "bool option"
  created_at :: timestamp
  updated_at :: "timestamp option"
  deletedAt :: "timestamp option"

text \<open>
  Modelled from the spec: the access-token table is declared by the User model, which is
  not among the sources. An access token is an opaque identifier and secret value pair,
  associated with exactly one User.
\<close>

record access_token =
  token_identifier :: nat
  tokenable_id :: nat
  secret :: jsstring

text \<open>
  The store: the rows of the two tables and, for each, the last key that its
  auto-increment column has issued. Deleting a row does not lower that key.
\<close>

record db =
  users :: "user list"
  users_seq :: nat
  auth_access_tokens :: "access_token list"
  auth_access_tokens_seq :: nat

text \<open>
  What a request takes from outside the store: the password hasher (making a hash, and
  verifying a plaintext against a stored hash), the validation library's email-syntax
  rule, the clock, and the random secret of the next token. Modelled from the spec: a
  token returned by login is non-empty, so the secret drawn for it has at least one code
  unit, given here as its first unit and the rest.
\<close>

record env =
  hash_make :: "jsstring \<Rightarrow> jsstring"
  hash_verify :: "jsstring \<Rightarrow> jsstring \<Rightarrow> bool"
  is_email :: "jsstring \<Rightarrow> bool"
  now :: timestamp
  random_secret :: "code_unit \<times> jsstring"

section \<open>Errors and responses\<close>

datatype field = F_name | F_email | F_password

datatype rule = R_required | R_string | R_minLength | R_maxLength | R_email | R_unique

datatype db_error = UniqueViolation

text \<open>
  The error kinds, one per failing response of the controller:
  \<^item> \<open>ValidationError\<close>: \<^verbatim>\<open>request.validateUsing\<close> throws, with the failed rule of each field;
  \<^item> \<open>DuplicateEmail\<close>: \<^verbatim>\<open>response.conflict\<close> of \<^verbatim>\<open>register\<close>;
  \<^item> \<open>RegistrationFailed\<close>: the \<^verbatim>\<open>catch\<close> branch of \<^verbatim>\<open>register\<close>, with the error's message;
  \<^item> \<open>InvalidCredentials\<close>: \<^verbatim>\<open>User.verifyCredentials\<close> throws;
  \<^item> \<open>AccountDisabled\<close>, \<open>AccountNotFound\<close>: the two \<^verbatim>\<open>response.status(403)\<close> of \<^verbatim>\<open>login\<close>;
  \<^item> \<open>Unauthorized\<close>: \<^verbatim>\<open>auth.getUserOrFail\<close> throws;
  \<^item> \<open>TokenMissing\<close>: \<^verbatim>\<open>response.status(401)\<close> of \<^verbatim>\<open>logout\<close>.
\<close>

datatype error =
    ValidationError "(field \<times> rule) list"
  | DuplicateEmail
  | RegistrationFailed db_error
  | InvalidCredentials
  | AccountDisabled
  | AccountNotFound
  | Unauthorized
  | TokenMissing

fun http_status :: "error \<Rightarrow> nat" where
  "http_status (ValidationError errs) = 422"
| "http_status DuplicateEmail = 409"
| "http_status (RegistrationFailed err) = 400"
| "http_status InvalidCredentials = 400"
| "http_status AccountDisabled = 403"
| "http_status AccountNotFound = 403"
| "http_status Unauthorized = 401"
| "http_status TokenMissing = 401"

datatype column =
  C_id | C_name | C_email | C_password | C_status | C_isAdmin
  | C_created_at | C_updated_at | C_deletedAt

datatype key = K_token | K_message | K_col column

datatype val =
  V_null | V_num nat | V_bool bool | V_str jsstring | V_time timestamp
  | V_token access_token

record response =
  http_code :: nat
  body :: "(key \<times> val) list"

section \<open>The validators\<close>

fun and_then :: "'e + 'a \<Rightarrow> ('a \<Rightarrow> 'e + 'b) \<Rightarrow> 'e + 'b" where
  "and_then (Inl e) f = Inl e"
| "and_then (Inr a) f = f a"

fun vine_string :: "raw \<Rightarrow> rule + jsstring" where
  "vine_string Undefined = Inl R_required"
| "vine_string NotString = Inl R_string"
| "vine_string (Str s) = Inr s"

definition minLength :: "nat \<Rightarrow> jsstring \<Rightarrow> rule + jsstring" where
  "minLength n s = (if length s < n then Inl R_minLength else Inr s)"

definition maxLength :: "nat \<Rightarrow> jsstring \<Rightarrow> rule + jsstring" where
  "maxLength n s = (if n < length s then Inl R_maxLength else Inr s)"

definition email_rule :: "env \<Rightarrow> jsstring \<Rightarrow> rule + jsstring" where
  "email_rule env s = (if is_email env s then Inr s else Inl R_email)"

text \<open>
  The callback of \<^verbatim>\<open>unique\<close> in \<^verbatim>\<open>registerValidator\<close>: the first row of \<^verbatim>\<open>users\<close> with
  this email, and the rule holds when there is none.
\<close>

definition unique :: "db \<Rightarrow> jsstring \<Rightarrow> rule + jsstring" where
  "unique d s =
     (case find (\<lambda>u. email u = s) (users d) of
        None \<Rightarrow> Inr s
      | Some user \<Rightarrow> Inl R_unique)"

fun optional :: "(raw \<Rightarrow> rule + 'a) \<Rightarrow> raw \<Rightarrow> rule + 'a option" where
  "optional f Undefined = Inr None"
| "optional f v = and_then (f v) (\<lambda>a. Inr (Some a))"

definition register_name :: "raw \<Rightarrow> rule + jsstring option" where
  "register_name =
     optional (\<lambda>v. and_then (and_then (vine_string v) (minLength 3)) (maxLength 64))"

definition register_email :: "env \<Rightarrow> db \<Rightarrow> raw \<Rightarrow> rule + jsstring" where
  "register_email env d v = and_then (and_then (vine_string v) (email_rule env)) (unique d)"

definition register_password :: "raw \<Rightarrow> rule + jsstring" where
  "register_password v = and_then (and_then (vine_string v) (minLength 8)) (maxLength 512)"

definition login_email :: "env \<Rightarrow> raw \<Rightarrow> rule + jsstring" where
  "login_email env v = and_then (vine_string v) (email_rule env)"

definition login_password :: "raw \<Rightarrow> rule + jsstring" where
  "login_password v = and_then (and_then (vine_string v) (minLength 8)) (maxLength 32)"

definition field_errors :: "field \<Rightarrow> rule + 'a \<Rightarrow> (field \<times> rule) list" where
  "field_errors f r = (case r of Inl e \<Rightarrow> [(f, e)] | Inr a \<Rightarrow> [])"

record payload =
  payload_name :: "jsstring option"
  payload_email :: jsstring
  payload_password :: jsstring

definition registerValidator :: "env \<Rightarrow> db \<Rightarrow> request \<Rightarrow> error + payload" where
  "registerValidator env d req =
     (let n = register_name (body_name req);
          e = register_email env d (body_email req);
          p = register_password (body_password req)
      in case (n, e, p) of
           (Inr n', Inr e', Inr p') \<Rightarrow>
             Inr \<lparr>payload_name = n', payload_email = e', payload_password = p'\<rparr>
         | _ \<Rightarrow>
             Inl (ValidationError
                   (field_errors F_name n @ field_errors F_email e @ field_errors F_password p)))"

definition loginValidator :: "env \<Rightarrow> request \<Rightarrow> error + jsstring \<times> jsstring" where
  "loginValidator env req =
     (let e = login_email env (body_email req);
          p = login_password (body_password req)
      in case (e, p) of
           (Inr e', Inr p') \<Rightarrow> Inr (e', p')
         | _ \<Rightarrow> Inl (ValidationError (field_errors F_email e @ field_errors F_password p)))"

section \<open>The User model\<close>

text \<open>
  Modelled from the spec: \<^verbatim>\<open>User.verifyCredentials\<close> comes with the User model, which is
  not among the sources. It looks the User up by email and fails with
  \<open>InvalidCredentials\<close> if there is no match or the password does not match the stored
  hash; otherwise it returns the matched row.
\<close>

definition verifyCredentials :: "env \<Rightarrow> db \<Rightarrow> jsstring \<Rightarrow> jsstring \<Rightarrow> error + user" where
  "verifyCredentials env d e p =
     (case find (\<lambda>u. email u = e) (users d) of
        None \<Rightarrow> Inl InvalidCredentials
      | Some u \<Rightarrow> if hash_verify env (password u) p then Inr u else Inl InvalidCredentials)"

text \<open>
  The next value of an auto-increment key (\<^verbatim>\<open>table.increments\<close> in the migration): one
  more than the last key issued, so the key of a deleted row is never issued again; it is
  also above every key present in the table, and never 0.
\<close>

definition fresh_id :: "nat \<Rightarrow> nat list \<Rightarrow> nat" where
  "fresh_id last_issued ids = Suc (max last_issued (foldr max ids 0))"

definition nullable :: "('a \<Rightarrow> val) \<Rightarrow> 'a option \<Rightarrow> val" where
  "nullable f x = (case x of None \<Rightarrow> V_null | Some a \<Rightarrow> f a)"

text \<open>
  Modelled from the spec: the attributes of a User read from the store, which the User
  model, not among the sources, declares. They are the fields of the spec's User, one per
  column of the migration, a null column giving a null value.
\<close>

definition attributes :: "user \<Rightarrow> (column \<times> val) list" where
  "attributes u =
     [(C_id, V_num (user_id u)),
      (C_name, nullable V_str (name u)),
      (C_email, V_str (email u)),
      (C_password, V_str (password u)),
      (C_status, nullable V_str (status u)),
      (C_isAdmin, nullable V_bool (isAdmin u)),
      (C_created_at, V_time (created_at u)),
      (C_updated_at, nullable V_time (updated_at u)),
      (C_deletedAt, nullable V_time (deletedAt u))]"

text \<open>
  Modelled from the spec: \<^verbatim>\<open>serialize\<close> follows the column declarations of the User model,
  which is not among the sources. The serialized User has the attributes of the instance,
  and the password hash is never included.
\<close>

definition serialize :: "(column \<times> val) list \<Rightarrow> (column \<times> val) list" where
  "serialize attrs = filter (\<lambda>(c, v). c \<noteq> C_password) attrs"

text \<open>
  Modelled from the spec: \<^verbatim>\<open>User.create\<close> and the hook that hashes the password belong to
  the User model, which is not among the sources. The row that is persisted has the
  payload's name and email, the hash of the payload's password, and the defaults of the
  migration: \<^verbatim>\<open>status\<close> is \<^verbatim>\<open>'active'\<close>, \<^verbatim>\<open>isAdmin\<close> is false, \<^verbatim>\<open>deletedAt\<close> is null.
\<close>

definition new_user :: "env \<Rightarrow> db \<Rightarrow> payload \<Rightarrow> user" where
  "new_user env d pl =
     \<lparr>user_id = fresh_id (users_seq d) (map user_id (users d)),
      name = payload_name pl,
      email = payload_email pl,
      password = hash_make env (payload_password pl),
      status = Some (js ''active''),
      isAdmin = Some False,
      created_at = now env,
      updated_at = Some (now env),
      deletedAt = None\<rparr>"

text \<open>
  Modelled from the spec: the User that \<^verbatim>\<open>User.create\<close> returns, an instance of the User
  model, which is not among the sources. The created User holds what was written (the
  payload with the hashed password, the timestamps) and the generated key; the columns
  filled by the defaults of the table are not read back into it.
\<close>

definition created_attributes :: "user \<Rightarrow> (column \<times> val) list" where
  "created_attributes u =
     (case name u of None \<Rightarrow> [] | Some n \<Rightarrow> [(C_name, V_str n)]) @
     [(C_email, V_str (email u)),
      (C_password, V_str (password u)),
      (C_created_at, V_time (created_at u)),
      (C_updated_at, nullable V_time (updated_at u)),
      (C_id, V_num (user_id u))]"

text \<open>
  Modelled from the spec: \<^verbatim>\<open>User.create\<close> of the User model, which is not among the
  sources. It persists the new row and returns the created User. A persistence failure
  is an error: the insert fails on the unique index of \<^verbatim>\<open>email\<close> that the migration
  declares.
\<close>

definition User_create ::
  "env \<Rightarrow> db \<Rightarrow> payload \<Rightarrow> db_error + (column \<times> val) list \<times> db" where
  "User_create env d pl =
     (case find (\<lambda>u. email u = payload_email pl) (users d) of
        Some u \<Rightarrow> Inl UniqueViolation
      | None \<Rightarrow>
          (let row = new_user env d pl
           in Inr (created_attributes row,
                   d\<lparr>users := users d @ [row], users_seq := user_id row\<rparr>)))"

text \<open>
  Modelled from the spec: \<^verbatim>\<open>User.accessTokens.create\<close>, declared by the User model, which
  is not among the sources. It mints a new AccessToken bound to the user: the next
  identifier of the table, paired with the secret drawn from the environment, which is
  not empty (login returns a non-empty token).
\<close>

definition accessTokens_create :: "env \<Rightarrow> db \<Rightarrow> user \<Rightarrow> access_token \<times> db" where
  "accessTokens_create env d u =
     (let t = \<lparr>token_identifier =
                 fresh_id (auth_access_tokens_seq d)
                   (map token_identifier (auth_access_tokens d)),
               tokenable_id = user_id u,
               secret = fst (random_secret env) # snd (random_secret env)\<rparr>
      in (t, d\<lparr>auth_access_tokens := auth_access_tokens d @ [t],
                auth_access_tokens_seq := token_identifier t\<rparr>))"

text \<open>
  Modelled from the spec: \<^verbatim>\<open>User.accessTokens.delete\<close>, declared by the User model, which
  is not among the sources. It revokes (deletes) exactly the token with the given
  identifier for that user, and revoking a token that is not there is no error.
\<close>

definition accessTokens_delete :: "db \<Rightarrow> user \<Rightarrow> nat \<Rightarrow> db" where
  "accessTokens_delete d u i =
     d\<lparr>auth_access_tokens :=
         filter (\<lambda>t. \<not> (token_identifier t = i \<and> tokenable_id t = user_id u))
           (auth_access_tokens d)\<rparr>"

section \<open>The controller\<close>

text \<open>
  An object literal with a spread, \<^verbatim>\<open>{ k: v, ...src }\<close>: each property of \<open>src\<close> is
  assigned in turn, replacing the value of a key that is already there.
\<close>

definition spread :: "(key \<times> val) list \<Rightarrow> (key \<times> val) list \<Rightarrow> (key \<times> val) list" where
  "spread obj src = fold (\<lambda>(k, v). AList.update k v) src obj"

definition user_fields :: "(column \<times> val) list \<Rightarrow> (key \<times> val) list" where
  "user_fields attrs = map (\<lambda>(c, v). (K_col c, v)) attrs"

text \<open>
  \<^verbatim>\<open>register\<close> after its first statement: the lookup by email and the conflict response,
  then the creation inside \<^verbatim>\<open>try\<close>, whose \<^verbatim>\<open>catch\<close> answers 400 with the message of
  the error. A created User is an object, so the test \<^verbatim>\<open>!user\<close> never holds.
\<close>

definition register_handler :: "env \<Rightarrow> db \<Rightarrow> payload \<Rightarrow> (error + response) \<times> db" where
  "register_handler env d pl =
     (case find (\<lambda>u. email u = payload_email pl) (users d) of
        Some emailexist \<Rightarrow> (Inl DuplicateEmail, d)
      | None \<Rightarrow>
          (case User_create env d pl of
             Inl err \<Rightarrow> (Inl (RegistrationFailed err), d)
           | Inr (user, d') \<Rightarrow>
               (Inr \<lparr>http_code = 201, body = user_fields (serialize user)\<rparr>, d')))"

definition register :: "env \<Rightarrow> db \<Rightarrow> request \<Rightarrow> (error + response) \<times> db" where
  "register env d req =
     (case registerValidator env d req of
        Inl err \<Rightarrow> (Inl err, d)
      | Inr pl \<Rightarrow> register_handler env d pl)"

definition login :: "env \<Rightarrow> db \<Rightarrow> request \<Rightarrow> (error + response) \<times> db" where
  "login env d req =
     (case loginValidator env req of
        Inl err \<Rightarrow> (Inl err, d)
      | Inr (e, p) \<Rightarrow>
          (case verifyCredentials env d e p of
             Inl err \<Rightarrow> (Inl err, d)
           | Inr user \<Rightarrow>
               if status user = Some (js ''disable'') then (Inl AccountDisabled, d)
               else if deletedAt user \<noteq> None then (Inl AccountNotFound, d)
               else
                 (let (token, d') = accessTokens_create env d user
                  in (Inr \<lparr>http_code = 200,
                           body = spread [(K_token, V_token token)]
                                    (user_fields (serialize (attributes user)))\<rparr>,
                      d'))))"

text \<open>
  The authentication context of a request: nothing when the request is not authenticated
  (then \<^verbatim>\<open>getUserOrFail\<close> throws), otherwise the current user together with the identifier
  of its current access token, which may be undefined. \<open>falsy\<close> is JavaScript's
  \<^verbatim>\<open>!token\<close> on such an identifier: undefined and the number 0 are falsy.
\<close>

type_synonym auth = "(user \<times> nat option) option"

definition falsy :: "nat option \<Rightarrow> bool" where
  "falsy token = (case token of None \<Rightarrow> True | Some i \<Rightarrow> i = 0)"

definition logout :: "auth \<Rightarrow> db \<Rightarrow> (error + response) \<times> db" where
  "logout a d =
     (case a of
        None \<Rightarrow> (Inl Unauthorized, d)
      | Some (user, token) \<Rightarrow>
          if falsy token then (Inl TokenMissing, d)
          else
            (case token of
               None \<Rightarrow> (Inl TokenMissing, d)
             | Some i \<Rightarrow>
                 (Inr \<lparr>http_code = 200, body = [(K_message, V_str (js ''Logged out''))]\<rparr>,
                  accessTokens_delete d user i)))"

section \<open>Example data\<close>

text \<open>
  A store with four accounts that share the password \<^verbatim>\<open>longenough1\<close>: an active one, a
  disabled one, a soft-deleted one, and one that is both disabled and soft-deleted. Three
  tokens have been issued, and the third has been revoked. The example hasher prefixes
  the plaintext, and the example email rule asks for an at sign.
\<close>

definition example_env :: env where
  "example_env =
     \<lparr>hash_make = (\<lambda>p. js ''$1$'' @ p),
      hash_verify = (\<lambda>h p. h = js ''$1$'' @ p),
      is_email = (\<lambda>s. of_char CHR ''@'' \<in> set s),
      now = 1000,
      random_secret = (of_char CHR ''s'', js ''3cr3t'')\<rparr>"

definition account :: "nat \<Rightarrow> string \<Rightarrow> string \<Rightarrow> timestamp option \<Rightarrow> user" where
  "account i e st del =
     \<lparr>user_id = i, name = None, email = js e, password = js ''$1$longenough1'',
      status = Some (js st), isAdmin = Some False, created_at = 100,
      updated_at = Some 100, deletedAt = del\<rparr>"

definition example_db :: db where
  "example_db =
     \<lparr>users =
        [account 1 ''a@x.com'' ''active'' None,
         account 2 ''b@x.com'' ''disable'' None,
         account 3 ''c@x.com'' ''active'' (Some 500),
         account 4 ''d@x.com'' ''disable'' (Some 600)],
      users_seq = 4,
      auth_access_tokens =
        [\<lparr>token_identifier = 1, tokenable_id = 1, secret = js ''t0ken1''\<rparr>,
         \<lparr>token_identifier = 2, tokenable_id = 3, secret = js ''t0ken2''\<rparr>],
      auth_access_tokens_seq = 3\<rparr>"

definition credentials :: "string \<Rightarrow> string \<Rightarrow> request" where
  "credentials e p = \<lparr>body_name = Undefined, body_email = Str (js e), body_password = Str (js p)\<rparr>"

lemmas fixture_defs = example_env_def example_db_def account_def credentials_def js_def

lemmas validator_defs = loginValidator_def login_email_def login_password_def
  registerValidator_def register_name_def register_email_def register_password_def
  email_rule_def unique_def minLength_def maxLength_def field_errors_def Let_def

section \<open>What the validators accept\<close>

lemma and_then_Inr_iff: "and_then x f = Inr b \<longleftrightarrow> (\<exists>a. x = Inr a \<and> f a = Inr b)"
  by (cases x) auto

lemma register_password_Inr_iff:
  "register_password v = Inr s \<longleftrightarrow> v = Str s \<and> 8 \<le> length s \<and> length s \<le> 512"
  by (cases v) (auto simp: register_password_def minLength_def maxLength_def and_then_Inr_iff)

lemma login_password_Inr_iff:
  "login_password v = Inr s \<longleftrightarrow> v = Str s \<and> 8 \<le> length s \<and> length s \<le> 32"
  by (cases v) (auto simp: login_password_def minLength_def maxLength_def and_then_Inr_iff)

lemma login_password_too_long:
  "32 < length s \<Longrightarrow> 8 \<le> length s \<Longrightarrow> login_password (Str s) = Inl R_maxLength"
  by (simp add: login_password_def minLength_def maxLength_def)

lemma register_email_Inr_iff:
  "register_email env d v = Inr s \<longleftrightarrow>
     v = Str s \<and> is_email env s \<and> find (\<lambda>u. email u = s) (users d) = None"
  by (cases v)
    (auto simp: register_email_def email_rule_def unique_def and_then_Inr_iff
      split: option.splits if_splits)

lemma register_email_taken:
  assumes "find (\<lambda>u. email u = e) (users d) = Some u"
  shows "\<exists>r. register_email env d (Str e) = Inl r \<and> (is_email env e \<longrightarrow> r = R_unique)"
  using assms by (simp add: register_email_def email_rule_def unique_def)

lemma registerValidator_Inr_iff:
  "registerValidator env d req = Inr pl \<longleftrightarrow>
     register_name (body_name req) = Inr (payload_name pl) \<and>
     register_email env d (body_email req) = Inr (payload_email pl) \<and>
     register_password (body_password req) = Inr (payload_password pl)"
  by (cases pl) (auto simp: registerValidator_def Let_def split: sum.splits)

lemma registerValidator_email_Inl:
  "register_email env d (body_email req) = Inl r \<Longrightarrow>
   \<exists>errs. registerValidator env d req = Inl (ValidationError errs) \<and> (F_email, r) \<in> set errs"
  by (auto simp: registerValidator_def Let_def field_errors_def split: sum.splits)

lemma loginValidator_Inl:
  "login_password (body_password req) = Inl r \<Longrightarrow>
   \<exists>errs. loginValidator env req = Inl (ValidationError errs) \<and> (F_password, r) \<in> set errs"
  by (auto simp: loginValidator_def Let_def field_errors_def split: sum.splits)

lemma registerValidator_accepts_iff:
  "(\<exists>pl. registerValidator env d req = Inr pl) \<longleftrightarrow>
     (\<exists>n. register_name (body_name req) = Inr n) \<and>
     (\<exists>e. register_email env d (body_email req) = Inr e) \<and>
     (\<exists>p. body_password req = Str p \<and> 8 \<le> length p \<and> length p \<le> 512)"
proof -
  have "(\<exists>p. body_password req = Str p \<and> 8 \<le> length p \<and> length p \<le> 512) \<longleftrightarrow>
      (\<exists>p. register_password (body_password req) = Inr p)"
    by (auto simp: register_password_Inr_iff)
  then show ?thesis
    by (auto simp: registerValidator_def Let_def split: sum.splits)
qed

lemma loginValidator_accepts_iff:
  "(\<exists>c. loginValidator env req = Inr c) \<longleftrightarrow>
     (\<exists>e. login_email env (body_email req) = Inr e) \<and>
     (\<exists>p. body_password req = Str p \<and> 8 \<le> length p \<and> length p \<le> 32)"
proof -
  have "(\<exists>p. body_password req = Str p \<and> 8 \<le> length p \<and> length p \<le> 32) \<longleftrightarrow>
      (\<exists>p. login_password (body_password req) = Inr p)"
    by (auto simp: login_password_Inr_iff)
  then show ?thesis
    by (auto simp: loginValidator_def Let_def split: sum.splits)
qed

section \<open>Login\<close>

lemma login_validated:
  "loginValidator env req = Inr (e, p) \<Longrightarrow>
   login env d req =
     (case verifyCredentials env d e p of
        Inl err \<Rightarrow> (Inl err, d)
      | Inr user \<Rightarrow>
          if status user = Some (js ''disable'') then (Inl AccountDisabled, d)
          else if deletedAt user \<noteq> None then (Inl AccountNotFound, d)
          else
            (let (token, d') = accessTokens_create env d user
             in (Inr \<lparr>http_code = 200,
                      body = spread [(K_token, V_token token)]
                               (user_fields (serialize (attributes user)))\<rparr>,
                 d')))"
  by (simp add: login_def)

lemma verifyCredentials_wrong:
  "find (\<lambda>u. email u = e) (users d) = Some u \<Longrightarrow> \<not> hash_verify env (password u) p \<Longrightarrow>
   verifyCredentials env d e p = Inl InvalidCredentials"
  by (simp add: verifyCredentials_def)

lemma foldr_max_greatest: "i \<in> set ids \<Longrightarrow> i \<le> foldr max ids (0::nat)"
  by (induction ids) auto

lemma fresh_id_greater: "i \<in> set ids \<Longrightarrow> i < fresh_id n ids"
  using foldr_max_greatest [of i ids] by (simp add: fresh_id_def)

lemma fresh_id_new: "fresh_id n ids \<notin> set ids"
  using fresh_id_greater [of "fresh_id n ids" ids n] by auto

lemma fresh_id_above_last: "n < fresh_id n ids"
  by (simp add: fresh_id_def)

lemma fresh_id_positive: "0 < fresh_id n ids"
  by (simp add: fresh_id_def)

lemma login_body:
  "spread [(K_token, V_token t)] (user_fields (serialize (attributes u))) =
     [(K_token, V_token t),
      (K_col C_id, V_num (user_id u)),
      (K_col C_name, nullable V_str (name u)),
      (K_col C_email, V_str (email u)),
      (K_col C_status, nullable V_str (status u)),
      (K_col C_isAdmin, nullable V_bool (isAdmin u)),
      (K_col C_created_at, V_time (created_at u)),
      (K_col C_updated_at, nullable V_time (updated_at u)),
      (K_col C_deletedAt, nullable V_time (deletedAt u))]"
  by (simp add: spread_def user_fields_def serialize_def attributes_def)

text \<open>
  Claim C1. A login request that passes \<open>loginValidator\<close>, with the email of an existing
  User and a password that does not match the stored hash, fails with
  \<open>InvalidCredentials\<close> (HTTP 400) whatever the \<open>status\<close> and \<open>deletedAt\<close> of that User:
  the credentials are checked before the two gates, so the answer is neither
  \<open>AccountDisabled\<close> nor \<open>AccountNotFound\<close>, and the store is unchanged.
\<close>

theorem login_wrong_password:
  assumes "loginValidator env req = Inr (e, p)"
    and "find (\<lambda>u. email u = e) (users d) = Some u"
    and "\<not> hash_verify env (password u) p"
  shows "login env d req = (Inl InvalidCredentials, d)
     \<and> http_status InvalidCredentials = 400
     \<and> fst (login env d req) \<noteq> Inl AccountDisabled
     \<and> fst (login env d req) \<noteq> Inl AccountNotFound"
  using assms by (simp add: login_validated verifyCredentials_wrong)

text \<open>
  The account \<^verbatim>\<open>d@x.com\<close> is disabled and soft-deleted; a wrong password is still
  answered with \<open>InvalidCredentials\<close>.
\<close>

theorem login_wrong_password_witness:
  "loginValidator example_env (credentials ''d@x.com'' ''wrongpassword'') =
     Inr (js ''d@x.com'', js ''wrongpassword'')
   \<and> find (\<lambda>u. email u = js ''d@x.com'') (users example_db) =
       Some (account 4 ''d@x.com'' ''disable'' (Some 600))
   \<and> \<not> hash_verify example_env (password (account 4 ''d@x.com'' ''disable'' (Some 600)))
         (js ''wrongpassword'')
   \<and> login example_env example_db (credentials ''d@x.com'' ''wrongpassword'') =
       (Inl InvalidCredentials, example_db)"
proof -
  have v: "loginValidator example_env (credentials ''d@x.com'' ''wrongpassword'') =
     Inr (js ''d@x.com'', js ''wrongpassword'')"
    by (simp add: fixture_defs validator_defs)
  have f: "find (\<lambda>u. email u = js ''d@x.com'') (users example_db) =
       Some (account 4 ''d@x.com'' ''disable'' (Some 600))"
    by (simp add: fixture_defs)
  have w: "\<not> hash_verify example_env (password (account 4 ''d@x.com'' ''disable'' (Some 600)))
         (js ''wrongpassword'')"
    by (simp add: fixture_defs)
  from login_wrong_password [OF v f w] v f w show ?thesis by simp
qed

text \<open>
  Claim C2. A login request that passes \<open>loginValidator\<close> and whose credentials are
  accepted for a User with \<open>status\<close> equal to \<^verbatim>\<open>'disable'\<close> fails with \<open>AccountDisabled\<close>
  (HTTP 403), not with \<open>InvalidCredentials\<close>, and the store is unchanged: no token is
  issued.
\<close>

theorem login_disabled:
  assumes "loginValidator env req = Inr (e, p)"
    and "verifyCredentials env d e p = Inr u"
    and "status u = Some (js ''disable'')"
  shows "login env d req = (Inl AccountDisabled, d)
     \<and> http_status AccountDisabled = 403
     \<and> fst (login env d req) \<noteq> Inl InvalidCredentials
     \<and> auth_access_tokens (snd (login env d req)) = auth_access_tokens d"
  using assms by (simp add: login_validated)

theorem login_disabled_witness:
  "loginValidator example_env (credentials ''b@x.com'' ''longenough1'') =
     Inr (js ''b@x.com'', js ''longenough1'')
   \<and> verifyCredentials example_env example_db (js ''b@x.com'') (js ''longenough1'') =
       Inr (account 2 ''b@x.com'' ''disable'' None)
   \<and> status (account 2 ''b@x.com'' ''disable'' None) = Some (js ''disable'')
   \<and> login example_env example_db (credentials ''b@x.com'' ''longenough1'') =
       (Inl AccountDisabled, example_db)"
proof -
  have v: "loginValidator example_env (credentials ''b@x.com'' ''longenough1'') =
     Inr (js ''b@x.com'', js ''longenough1'')"
    by (simp add: fixture_defs validator_defs)
  have c: "verifyCredentials example_env example_db (js ''b@x.com'') (js ''longenough1'') =
       Inr (account 2 ''b@x.com'' ''disable'' None)"
    by (simp add: fixture_defs verifyCredentials_def)
  have s: "status (account 2 ''b@x.com'' ''disable'' None) = Some (js ''disable'')"
    by (simp add: account_def)
  from login_disabled [OF v c s] v c s show ?thesis by simp
qed

text \<open>
  Claim C3, as amended. A login request that passes \<open>loginValidator\<close> and whose
  credentials are accepted for a User with a non-null \<open>deletedAt\<close> and a \<open>status\<close> other
  than \<^verbatim>\<open>'disable'\<close> (for one, \<^verbatim>\<open>'active'\<close>) fails with \<open>AccountNotFound\<close> (HTTP 403), and
  the store is unchanged: no token is issued. The gate on \<open>status\<close> comes first, so a
  soft-deleted User that is also disabled is answered with \<open>AccountDisabled\<close>.
\<close>

theorem login_soft_deleted:
  assumes "loginValidator env req = Inr (e, p)"
    and "verifyCredentials env d e p = Inr u"
    and "deletedAt u \<noteq> None"
    and "status u \<noteq> Some (js ''disable'')"
  shows "login env d req = (Inl AccountNotFound, d)
     \<and> http_status AccountNotFound = 403
     \<and> auth_access_tokens (snd (login env d req)) = auth_access_tokens d"
  using assms by (simp add: login_validated)

theorem login_soft_deleted_witness:
  "loginValidator example_env (credentials ''c@x.com'' ''longenough1'') =
     Inr (js ''c@x.com'', js ''longenough1'')
   \<and> verifyCredentials example_env example_db (js ''c@x.com'') (js ''longenough1'') =
       Inr (account 3 ''c@x.com'' ''active'' (Some 500))
   \<and> deletedAt (account 3 ''c@x.com'' ''active'' (Some 500)) \<noteq> None
   \<and> status (account 3 ''c@x.com'' ''active'' (Some 500)) \<noteq> Some (js ''disable'')
   \<and> login example_env example_db (credentials ''c@x.com'' ''longenough1'') =
       (Inl AccountNotFound, example_db)"
proof -
  have v: "loginValidator example_env (credentials ''c@x.com'' ''longenough1'') =
     Inr (js ''c@x.com'', js ''longenough1'')"
    by (simp add: fixture_defs validator_defs)
  have c: "verifyCredentials example_env example_db (js ''c@x.com'') (js ''longenough1'') =
       Inr (account 3 ''c@x.com'' ''active'' (Some 500))"
    by (simp add: fixture_defs verifyCredentials_def)
  have x: "deletedAt (account 3 ''c@x.com'' ''active'' (Some 500)) \<noteq> None"
    by (simp add: account_def)
  have s: "status (account 3 ''c@x.com'' ''active'' (Some 500)) \<noteq> Some (js ''disable'')"
    by (simp add: account_def js_def)
  from login_soft_deleted [OF v c x s] v c x s show ?thesis by simp
qed

text \<open>
  The account \<^verbatim>\<open>d@x.com\<close> is soft-deleted and disabled: with the right password the
  answer is \<open>AccountDisabled\<close>, not \<open>AccountNotFound\<close>.
\<close>

theorem login_soft_deleted_counterexample:
  "loginValidator example_env (credentials ''d@x.com'' ''longenough1'') =
     Inr (js ''d@x.com'', js ''longenough1'')
   \<and> verifyCredentials example_env example_db (js ''d@x.com'') (js ''longenough1'') =
       Inr (account 4 ''d@x.com'' ''disable'' (Some 600))
   \<and> deletedAt (account 4 ''d@x.com'' ''disable'' (Some 600)) \<noteq> None
   \<and> login example_env example_db (credentials ''d@x.com'' ''longenough1'') =
       (Inl AccountDisabled, example_db)
   \<and> fst (login example_env example_db (credentials ''d@x.com'' ''longenough1'')) \<noteq>
       Inl AccountNotFound"
  by (simp add: fixture_defs validator_defs login_def verifyCredentials_def)

text \<open>
  Claim C4. A login request that passes \<open>loginValidator\<close> and whose credentials are
  accepted for a User that is neither disabled nor soft-deleted answers HTTP 200 and
  mints a new AccessToken bound to that User: its identifier is positive, above the last
  identifier issued and carried by no stored token, and the token is appended to the
  token store, nothing else of the store changing but the last identifier issued. The
  body is the token followed by the fields of the User, each with the value of its
  column; it has no \<^verbatim>\<open>password\<close> entry. The token entry is never null or empty: it holds
  the minted token, whose identifier is positive and whose secret, the one drawn from the
  environment, is a non-empty string.
\<close>

theorem login_success:
  assumes "loginValidator env req = Inr (e, p)"
    and "verifyCredentials env d e p = Inr u"
    and "status u \<noteq> Some (js ''disable'')"
    and "deletedAt u = None"
  shows "\<exists>t b. login env d req =
            (Inr \<lparr>http_code = 200, body = b\<rparr>,
             d\<lparr>auth_access_tokens := auth_access_tokens d @ [t],
               auth_access_tokens_seq := token_identifier t\<rparr>)
         \<and> b =
             [(K_token, V_token t),
              (K_col C_id, V_num (user_id u)),
              (K_col C_name, case name u of None \<Rightarrow> V_null | Some n \<Rightarrow> V_str n),
              (K_col C_email, V_str (email u)),
              (K_col C_status, case status u of None \<Rightarrow> V_null | Some st \<Rightarrow> V_str st),
              (K_col C_isAdmin, case isAdmin u of None \<Rightarrow> V_null | Some a \<Rightarrow> V_bool a),
              (K_col C_created_at, V_time (created_at u)),
              (K_col C_updated_at,
               case updated_at u of None \<Rightarrow> V_null | Some ts \<Rightarrow> V_time ts),
              (K_col C_deletedAt, V_null)]
         \<and> tokenable_id t = user_id u
         \<and> secret t = fst (random_secret env) # snd (random_secret env)
         \<and> secret t \<noteq> []
         \<and> 0 < token_identifier t
         \<and> auth_access_tokens_seq d < token_identifier t
         \<and> token_identifier t \<notin> token_identifier ` set (auth_access_tokens d)
         \<and> t \<notin> set (auth_access_tokens d)
         \<and> map_of b K_token = Some (V_token t)
         \<and> V_token t \<noteq> V_null
         \<and> map_of b (K_col C_password) = None
         \<and> K_col C_password \<notin> fst ` set b"
proof -
  let ?t = "fst (accessTokens_create env d u)"
  let ?b = "spread [(K_token, V_token ?t)] (user_fields (serialize (attributes u)))"
  have run: "login env d req =
      (Inr \<lparr>http_code = 200, body = ?b\<rparr>,
       d\<lparr>auth_access_tokens := auth_access_tokens d @ [?t],
         auth_access_tokens_seq := token_identifier ?t\<rparr>)"
    using assms by (simp add: login_validated accessTokens_create_def Let_def)
  have b: "?b =
      [(K_token, V_token ?t),
       (K_col C_id, V_num (user_id u)),
       (K_col C_name, case name u of None \<Rightarrow> V_null | Some n \<Rightarrow> V_str n),
       (K_col C_email, V_str (email u)),
       (K_col C_status, case status u of None \<Rightarrow> V_null | Some st \<Rightarrow> V_str st),
       (K_col C_isAdmin, case isAdmin u of None \<Rightarrow> V_null | Some a \<Rightarrow> V_bool a),
       (K_col C_created_at, V_time (created_at u)),
       (K_col C_updated_at, case updated_at u of None \<Rightarrow> V_null | Some ts \<Rightarrow> V_time ts),
       (K_col C_deletedAt, V_null)]"
    using assms(4) by (simp add: login_body nullable_def)
  have bound: "tokenable_id ?t = user_id u"
    "secret ?t = fst (random_secret env) # snd (random_secret env)"
    by (simp_all add: accessTokens_create_def Let_def)
  have ident: "token_identifier ?t =
      fresh_id (auth_access_tokens_seq d) (map token_identifier (auth_access_tokens d))"
    by (simp add: accessTokens_create_def Let_def)
  have pos: "0 < token_identifier ?t" "auth_access_tokens_seq d < token_identifier ?t"
    by (simp_all add: ident fresh_id_positive fresh_id_above_last)
  have new: "token_identifier ?t \<notin> token_identifier ` set (auth_access_tokens d)"
    using fresh_id_new [of "auth_access_tokens_seq d"
        "map token_identifier (auth_access_tokens d)"]
    by (simp add: ident)
  then have absent: "?t \<notin> set (auth_access_tokens d)"
    by blast
  have fields: "map_of ?b K_token = Some (V_token ?t)"
    "map_of ?b (K_col C_password) = None"
    "K_col C_password \<notin> fst ` set ?b"
    by (simp_all add: b)
  show ?thesis
    apply (rule exI [of _ ?t])
    apply (rule exI [of _ ?b])
    using run b bound pos new absent fields
    apply simp
    done
qed

text \<open>
  The active account \<^verbatim>\<open>a@x.com\<close> logs in. The store has issued three tokens, the third
  since revoked: the new token has identifier 4.
\<close>

theorem login_success_witness:
  "loginValidator example_env (credentials ''a@x.com'' ''longenough1'') =
     Inr (js ''a@x.com'', js ''longenough1'')
   \<and> verifyCredentials example_env example_db (js ''a@x.com'') (js ''longenough1'') =
       Inr (account 1 ''a@x.com'' ''active'' None)
   \<and> status (account 1 ''a@x.com'' ''active'' None) \<noteq> Some (js ''disable'')
   \<and> deletedAt (account 1 ''a@x.com'' ''active'' None) = None
   \<and> login example_env example_db (credentials ''a@x.com'' ''longenough1'') =
       (Inr \<lparr>http_code = 200,
             body =
               [(K_token,
                 V_token \<lparr>token_identifier = 4, tokenable_id = 1, secret = js ''s3cr3t''\<rparr>),
                (K_col C_id, V_num 1),
                (K_col C_name, V_null),
                (K_col C_email, V_str (js ''a@x.com'')),
                (K_col C_status, V_str (js ''active'')),
                (K_col C_isAdmin, V_bool False),
                (K_col C_created_at, V_time 100),
                (K_col C_updated_at, V_time 100),
                (K_col C_deletedAt, V_null)]\<rparr>,
        example_db\<lparr>auth_access_tokens :=
          auth_access_tokens example_db @
            [\<lparr>token_identifier = 4, tokenable_id = 1, secret = js ''s3cr3t''\<rparr>],
          auth_access_tokens_seq := 4\<rparr>)
   \<and> secret \<lparr>token_identifier = 4, tokenable_id = 1, secret = js ''s3cr3t''\<rparr> \<noteq> []"
proof -
  let ?u = "account 1 ''a@x.com'' ''active'' None"
  let ?t = "\<lparr>token_identifier = 4, tokenable_id = 1, secret = js ''s3cr3t''\<rparr>"
  have v: "loginValidator example_env (credentials ''a@x.com'' ''longenough1'') =
     Inr (js ''a@x.com'', js ''longenough1'')"
    by (simp add: fixture_defs validator_defs)
  have c: "verifyCredentials example_env example_db (js ''a@x.com'') (js ''longenough1'') =
       Inr ?u"
    by (simp add: fixture_defs verifyCredentials_def)
  have s: "status ?u \<noteq> Some (js ''disable'')"
    by (simp add: account_def js_def)
  have x: "deletedAt ?u = None"
    by (simp add: account_def)
  have r: "secret ?t \<noteq> []"
    by (simp add: js_def)
  have m: "accessTokens_create example_env example_db ?u =
      (?t, example_db\<lparr>auth_access_tokens := auth_access_tokens example_db @ [?t],
             auth_access_tokens_seq := 4\<rparr>)"
    by (simp add: accessTokens_create_def fresh_id_def example_db_def example_env_def
        account_def js_def Let_def)
  have b: "spread [(K_token, V_token ?t)] (user_fields (serialize (attributes ?u))) =
      [(K_token, V_token ?t),
       (K_col C_id, V_num 1),
       (K_col C_name, V_null),
       (K_col C_email, V_str (js ''a@x.com'')),
       (K_col C_status, V_str (js ''active'')),
       (K_col C_isAdmin, V_bool False),
       (K_col C_created_at, V_time 100),
       (K_col C_updated_at, V_time 100),
       (K_col C_deletedAt, V_null)]"
    by (simp add: login_body account_def nullable_def)
  have "login example_env example_db (credentials ''a@x.com'' ''longenough1'') =
      (Inr \<lparr>http_code = 200,
            body = spread [(K_token, V_token ?t)] (user_fields (serialize (attributes ?u)))\<rparr>,
       example_db\<lparr>auth_access_tokens := auth_access_tokens example_db @ [?t],
         auth_access_tokens_seq := 4\<rparr>)"
    using v c s x m by (simp add: login_validated)
  with b login_success [OF v c s x] v c s x r show ?thesis by simp
qed

section \<open>Registration\<close>

lemma find_append_new:
  "find P xs = None \<Longrightarrow> P x \<Longrightarrow> find P (xs @ [x]) = Some x"
  by (induction xs) (auto split: if_splits)

lemma created_body_no_password:
  "K_col C_password \<notin> fst ` set (user_fields (serialize (created_attributes u)))"
  by (auto simp: user_fields_def serialize_def created_attributes_def split: option.splits)

lemma created_body_fields:
  "map_of (user_fields (serialize (created_attributes u))) (K_col C_id) = Some (V_num (user_id u))"
  "map_of (user_fields (serialize (created_attributes u))) (K_col C_email) = Some (V_str (email u))"
  by (simp_all add: user_fields_def serialize_def created_attributes_def split: option.splits)

text \<open>
  Claim C5, as amended. A registration request whose email already belongs to an existing
  User fails at validation: \<open>register\<close> answers \<open>ValidationError\<close> (HTTP 422), raised by
  the \<^verbatim>\<open>unique\<close> rule when the email is well formed, and not \<open>DuplicateEmail\<close>. The
  handler's own lookup answers \<open>DuplicateEmail\<close> (HTTP 409) whenever it is reached with
  such an email. In both cases the store is unchanged: the existing User is as it was and
  no User is created.
\<close>

theorem register_existing_email:
  assumes "body_email req = Str e"
    and "find (\<lambda>u. email u = e) (users d) = Some u"
  shows "(\<exists>errs. register env d req = (Inl (ValidationError errs), d)
            \<and> http_status (ValidationError errs) = 422
            \<and> (is_email env e \<longrightarrow> (F_email, R_unique) \<in> set errs))
         \<and> (\<forall>pl. payload_email pl = e \<longrightarrow> register_handler env d pl = (Inl DuplicateEmail, d))
         \<and> http_status DuplicateEmail = 409"
proof -
  from register_email_taken [OF assms(2), of env]
  obtain r where r: "register_email env d (body_email req) = Inl r"
    and u: "is_email env e \<longrightarrow> r = R_unique"
    using assms(1) by auto
  from registerValidator_email_Inl [OF r]
  obtain errs where v: "registerValidator env d req = Inl (ValidationError errs)"
    and m: "(F_email, r) \<in> set errs" by blast
  have "register env d req = (Inl (ValidationError errs), d)"
    using v by (simp add: register_def)
  moreover have "is_email env e \<longrightarrow> (F_email, R_unique) \<in> set errs"
    using u m by auto
  moreover have "\<forall>pl. payload_email pl = e \<longrightarrow> register_handler env d pl = (Inl DuplicateEmail, d)"
    using assms(2) by (simp add: register_handler_def)
  ultimately show ?thesis by auto
qed

theorem register_existing_email_witness:
  "body_email (credentials ''a@x.com'' ''longenough1'') = Str (js ''a@x.com'')
   \<and> find (\<lambda>u. email u = js ''a@x.com'') (users example_db) =
       Some (account 1 ''a@x.com'' ''active'' None)
   \<and> is_email example_env (js ''a@x.com'')
   \<and> (\<exists>errs. register example_env example_db (credentials ''a@x.com'' ''longenough1'') =
         (Inl (ValidationError errs), example_db) \<and> (F_email, R_unique) \<in> set errs)
   \<and> register_handler example_env example_db
        \<lparr>payload_name = None, payload_email = js ''a@x.com'',
         payload_password = js ''longenough1''\<rparr> =
       (Inl DuplicateEmail, example_db)"
proof -
  have e: "body_email (credentials ''a@x.com'' ''longenough1'') = Str (js ''a@x.com'')"
    by (simp add: credentials_def)
  have f: "find (\<lambda>u. email u = js ''a@x.com'') (users example_db) =
       Some (account 1 ''a@x.com'' ''active'' None)"
    by (simp add: fixture_defs)
  have m: "is_email example_env (js ''a@x.com'')"
    by (simp add: fixture_defs)
  from register_existing_email [OF e f, of example_env] e f m show ?thesis by simp
qed

text \<open>
  Registering \<^verbatim>\<open>a@x.com\<close> a second time is answered by the validator, with the
  \<^verbatim>\<open>unique\<close> rule on \<^verbatim>\<open>email\<close>, and not with \<open>DuplicateEmail\<close>.
\<close>

theorem register_existing_email_counterexample:
  "body_email (credentials ''a@x.com'' ''longenough1'') = Str (js ''a@x.com'')
   \<and> find (\<lambda>u. email u = js ''a@x.com'') (users example_db) =
       Some (account 1 ''a@x.com'' ''active'' None)
   \<and> register example_env example_db (credentials ''a@x.com'' ''longenough1'') =
       (Inl (ValidationError [(F_email, R_unique)]), example_db)
   \<and> fst (register example_env example_db (credentials ''a@x.com'' ''longenough1'')) \<noteq>
       Inl DuplicateEmail"
  by (simp add: fixture_defs validator_defs register_def)

text \<open>
  Claim C6. A registration request that passes \<open>registerValidator\<close> (so its email is
  fresh) answers HTTP 201 and appends one User to the table: its \<open>status\<close> is
  \<^verbatim>\<open>'active'\<close>, its \<open>isAdmin\<close> is false, its key is new, its \<open>password\<close> column holds the
  hash of the submitted password (which is not the plaintext, for a hasher that never
  returns its input), and it is the row found by its email. The body is the serialized
  created User, and it has no \<^verbatim>\<open>password\<close> entry.
\<close>

theorem register_fresh_email:
  assumes "registerValidator env d req = Inr pl"
  shows "\<exists>u b. register env d req =
            (Inr \<lparr>http_code = 201, body = b\<rparr>,
             d\<lparr>users := users d @ [u], users_seq := user_id u\<rparr>)
         \<and> u = new_user env d pl
         \<and> body_email req = Str (email u)
         \<and> body_password req = Str (payload_password pl)
         \<and> status u = Some (js ''active'')
         \<and> isAdmin u = Some False
         \<and> password u = hash_make env (payload_password pl)
         \<and> (hash_make env (payload_password pl) \<noteq> payload_password pl
              \<longrightarrow> password u \<noteq> payload_password pl)
         \<and> user_id u \<notin> user_id ` set (users d)
         \<and> users_seq d < user_id u
         \<and> find (\<lambda>x. email x = email u) (users d @ [u]) = Some u
         \<and> b = user_fields (serialize (created_attributes u))
         \<and> map_of b (K_col C_id) = Some (V_num (user_id u))
         \<and> map_of b (K_col C_email) = Some (V_str (email u))
         \<and> K_col C_password \<notin> fst ` set b"
proof -
  let ?u = "new_user env d pl"
  let ?b = "user_fields (serialize (created_attributes ?u))"
  from assms have em: "body_email req = Str (payload_email pl)"
    and fresh: "find (\<lambda>x. email x = payload_email pl) (users d) = None"
    and pw: "body_password req = Str (payload_password pl)"
    by (simp_all add: registerValidator_Inr_iff register_email_Inr_iff register_password_Inr_iff)
  have run: "register env d req =
      (Inr \<lparr>http_code = 201, body = ?b\<rparr>,
       d\<lparr>users := users d @ [?u], users_seq := user_id ?u\<rparr>)"
    using assms fresh by (simp add: register_def register_handler_def User_create_def Let_def)
  have row: "email ?u = payload_email pl" "status ?u = Some (js ''active'')"
    "isAdmin ?u = Some False" "password ?u = hash_make env (payload_password pl)"
    by (simp_all add: new_user_def)
  have key: "user_id ?u \<notin> user_id ` set (users d)"
    using fresh_id_new [of "users_seq d" "map user_id (users d)"] by (simp add: new_user_def)
  have last: "users_seq d < user_id ?u"
    by (simp add: new_user_def fresh_id_above_last)
  have found: "find (\<lambda>x. email x = email ?u) (users d @ [?u]) = Some ?u"
    using fresh row(1) by (simp add: find_append_new)
  from run em pw row key last found created_body_no_password [of ?u] created_body_fields [of ?u]
  show ?thesis by auto
qed

theorem register_fresh_email_witness:
  "registerValidator example_env example_db (credentials ''e@x.com'' ''longenough1'') =
     Inr \<lparr>payload_name = None, payload_email = js ''e@x.com'',
          payload_password = js ''longenough1''\<rparr>
   \<and> hash_make example_env (js ''longenough1'') \<noteq> js ''longenough1''
   \<and> register example_env example_db (credentials ''e@x.com'' ''longenough1'') =
       (Inr \<lparr>http_code = 201,
             body =
               [(K_col C_email, V_str (js ''e@x.com'')),
                (K_col C_created_at, V_time 1000),
                (K_col C_updated_at, V_time 1000),
                (K_col C_id, V_num 5)]\<rparr>,
        example_db\<lparr>users := users example_db @
          [\<lparr>user_id = 5, name = None, email = js ''e@x.com'',
            password = js ''$1$longenough1'', status = Some (js ''active''),
            isAdmin = Some False, created_at = 1000, updated_at = Some 1000,
            deletedAt = None\<rparr>],
          users_seq := 5\<rparr>)"
proof -
  let ?pl = "\<lparr>payload_name = None, payload_email = js ''e@x.com'',
          payload_password = js ''longenough1''\<rparr>"
  let ?u = "\<lparr>user_id = 5, name = None, email = js ''e@x.com'',
            password = js ''$1$longenough1'', status = Some (js ''active''),
            isAdmin = Some False, created_at = 1000, updated_at = Some 1000,
            deletedAt = None\<rparr>"
  have v: "registerValidator example_env example_db (credentials ''e@x.com'' ''longenough1'') =
     Inr ?pl"
    by (simp add: fixture_defs validator_defs)
  have h: "hash_make example_env (js ''longenough1'') \<noteq> js ''longenough1''"
    by (simp add: fixture_defs)
  have u: "new_user example_env example_db ?pl = ?u"
    by (simp add: new_user_def fresh_id_def fixture_defs)
  have b: "user_fields (serialize (created_attributes ?u)) =
      [(K_col C_email, V_str (js ''e@x.com'')),
       (K_col C_created_at, V_time 1000),
       (K_col C_updated_at, V_time 1000),
       (K_col C_id, V_num 5)]"
    by (simp add: user_fields_def serialize_def created_attributes_def nullable_def)
  from register_fresh_email [OF v] v h u b show ?thesis by auto
qed

section \<open>Logout\<close>

lemma filter_filter_same: "filter P (filter P xs) = filter P xs"
  by (induction xs) auto

text \<open>
  Claim C7. For an authenticated request: if no token identifier is resolvable (the
  test \<^verbatim>\<open>!token\<close> holds), \<open>logout\<close> fails with \<open>TokenMissing\<close> (HTTP 401) and the store
  is unchanged. Otherwise it answers HTTP 200 and removes from the token store exactly
  the tokens with that identifier that belong to the authenticated User, every other
  token and the \<^verbatim>\<open>users\<close> table staying as they were; and the same request on the
  resulting store, where the token is already revoked, gets the same answer and leaves
  that store unchanged.
\<close>

theorem logout_contract:
  "(falsy token \<longrightarrow>
      logout (Some (u, token)) d = (Inl TokenMissing, d) \<and> http_status TokenMissing = 401)
   \<and> (\<not> falsy token \<longrightarrow>
      (\<exists>i d'. token = Some i
         \<and> logout (Some (u, token)) d =
             (Inr \<lparr>http_code = 200, body = [(K_message, V_str (js ''Logged out''))]\<rparr>, d')
         \<and> users d' = users d
         \<and> (\<forall>t. t \<in> set (auth_access_tokens d') \<longleftrightarrow>
               t \<in> set (auth_access_tokens d)
               \<and> \<not> (token_identifier t = i \<and> tokenable_id t = user_id u))
         \<and> logout (Some (u, token)) d' =
             (Inr \<lparr>http_code = 200, body = [(K_message, V_str (js ''Logged out''))]\<rparr>, d')))"
proof (cases token)
  case None
  then show ?thesis by (simp add: falsy_def logout_def)
next
  case (Some i)
  show ?thesis
  proof (cases "i = 0")
    case True
    with Some show ?thesis by (simp add: falsy_def logout_def)
  next
    case False
    let ?d = "accessTokens_delete d u i"
    have again: "accessTokens_delete ?d u i = ?d"
      by (simp add: accessTokens_delete_def filter_filter_same)
    have "logout (Some (u, token)) d =
        (Inr \<lparr>http_code = 200, body = [(K_message, V_str (js ''Logged out''))]\<rparr>, ?d)"
      using Some False by (simp add: falsy_def logout_def)
    moreover have "logout (Some (u, token)) ?d =
        (Inr \<lparr>http_code = 200, body = [(K_message, V_str (js ''Logged out''))]\<rparr>, ?d)"
      using Some False again by (simp add: falsy_def logout_def)
    moreover have "users ?d = users d"
      by (simp add: accessTokens_delete_def)
    moreover have "\<forall>t. t \<in> set (auth_access_tokens ?d) \<longleftrightarrow>
        t \<in> set (auth_access_tokens d)
        \<and> \<not> (token_identifier t = i \<and> tokenable_id t = user_id u)"
      by (simp add: accessTokens_delete_def)
    ultimately show ?thesis using Some False by (simp add: falsy_def)
  qed
qed

theorem logout_contract_witness:
  "falsy None
   \<and> logout (Some (account 1 ''a@x.com'' ''active'' None, None)) example_db =
       (Inl TokenMissing, example_db)
   \<and> \<not> falsy (Some 1)
   \<and> logout (Some (account 1 ''a@x.com'' ''active'' None, Some 1)) example_db =
       (Inr \<lparr>http_code = 200, body = [(K_message, V_str (js ''Logged out''))]\<rparr>,
        example_db\<lparr>auth_access_tokens :=
          [\<lparr>token_identifier = 2, tokenable_id = 3, secret = js ''t0ken2''\<rparr>]\<rparr>)
   \<and> logout (Some (account 1 ''a@x.com'' ''active'' None, Some 1))
       (example_db\<lparr>auth_access_tokens :=
          [\<lparr>token_identifier = 2, tokenable_id = 3, secret = js ''t0ken2''\<rparr>]\<rparr>) =
       (Inr \<lparr>http_code = 200, body = [(K_message, V_str (js ''Logged out''))]\<rparr>,
        example_db\<lparr>auth_access_tokens :=
          [\<lparr>token_identifier = 2, tokenable_id = 3, secret = js ''t0ken2''\<rparr>]\<rparr>)"
proof -
  have n: "falsy None" and p: "\<not> falsy (Some 1)"
    by (simp_all add: falsy_def)
  have d: "accessTokens_delete example_db (account 1 ''a@x.com'' ''active'' None) 1 =
      example_db\<lparr>auth_access_tokens :=
          [\<lparr>token_identifier = 2, tokenable_id = 3, secret = js ''t0ken2''\<rparr>]\<rparr>"
    by (simp add: accessTokens_delete_def example_db_def account_def)
  from logout_contract [of None "account 1 ''a@x.com'' ''active'' None" example_db]
    logout_contract [of "Some 1" "account 1 ''a@x.com'' ''active'' None" example_db]
    n p d
  show ?thesis by (auto simp: logout_def)
qed

section \<open>The frame of login and logout\<close>

text \<open>
  Claim C10. Neither \<open>login\<close> nor \<open>logout\<close> changes the \<^verbatim>\<open>users\<close> table: after either
  operation, on every path, the list of User rows is the one before it. Only the
  access-token store may differ.
\<close>

theorem login_logout_keep_users:
  "users (snd (login env d req)) = users d \<and> users (snd (logout a d)) = users d"
proof
  show "users (snd (login env d req)) = users d"
    by (simp add: login_def verifyCredentials_def accessTokens_create_def Let_def
        split: sum.splits prod.splits option.splits)
  show "users (snd (logout a d)) = users d"
    by (simp add: logout_def accessTokens_delete_def split: option.splits prod.splits)
qed

theorem login_logout_keep_users_witness:
  "users (snd (login example_env example_db (credentials ''a@x.com'' ''longenough1''))) =
     users example_db
   \<and> users (snd (logout (Some (account 1 ''a@x.com'' ''active'' None, Some 1)) example_db)) =
     users example_db"
  using login_logout_keep_users [of example_env example_db
      "credentials ''a@x.com'' ''longenough1''"
      "Some (account 1 ''a@x.com'' ''active'' None, Some 1)"]
  by simp

section \<open>The two password bounds\<close>

lemma login_rejects_long_password:
  assumes "registerValidator env d req = Inr pl" and "33 \<le> length (payload_password pl)"
  shows "body_password req = Str (payload_password pl) \<and> length (payload_password pl) \<le> 512 \<and>
     (\<exists>errs. login env d' req = (Inl (ValidationError errs), d')
        \<and> (F_password, R_maxLength) \<in> set errs)"
proof -
  from assms(1) have pw: "body_password req = Str (payload_password pl)"
    and le: "length (payload_password pl) \<le> 512"
    by (simp_all add: registerValidator_Inr_iff register_password_Inr_iff)
  with assms(2) have "login_password (body_password req) = Inl R_maxLength"
    by (simp add: login_password_too_long)
  from loginValidator_Inl [OF this, of env]
  obtain errs where "loginValidator env req = Inl (ValidationError errs)"
    and "(F_password, R_maxLength) \<in> set errs" by blast
  then have "\<exists>errs. login env d' req = (Inl (ValidationError errs), d')
      \<and> (F_password, R_maxLength) \<in> set errs"
    by (auto simp: login_def)
  with pw le show ?thesis by simp
qed

text \<open>
  Claim C8. \<open>registerValidator\<close> accepts a request exactly when its name and email pass
  their rules and its password is a string of 8 to 512 code units; \<open>loginValidator\<close>
  accepts one exactly when its email passes its rule and its password is a string of 8
  to 32 code units. So a request that registration accepts with a password of 33 code
  units or more (up to 512) is rejected by \<open>login\<close> at validation, on any store, with
  the \<^verbatim>\<open>maxLength\<close> rule on \<^verbatim>\<open>password\<close>.
\<close>

theorem password_length_bounds:
  "((\<exists>pl. registerValidator env d req = Inr pl) \<longleftrightarrow>
      (\<exists>n. register_name (body_name req) = Inr n) \<and>
      (\<exists>e. register_email env d (body_email req) = Inr e) \<and>
      (\<exists>p. body_password req = Str p \<and> 8 \<le> length p \<and> length p \<le> 512))
   \<and> ((\<exists>c. loginValidator env req = Inr c) \<longleftrightarrow>
      (\<exists>e. login_email env (body_email req) = Inr e) \<and>
      (\<exists>p. body_password req = Str p \<and> 8 \<le> length p \<and> length p \<le> 32))
   \<and> (registerValidator env d req = Inr pl \<and> 33 \<le> length (payload_password pl) \<longrightarrow>
      body_password req = Str (payload_password pl) \<and> length (payload_password pl) \<le> 512 \<and>
      (\<exists>errs. login env d' req = (Inl (ValidationError errs), d')
         \<and> (F_password, R_maxLength) \<in> set errs))"
  using registerValidator_accepts_iff [of env d req] loginValidator_accepts_iff [of env req]
    login_rejects_long_password [of env d req pl d']
  by blast

text \<open>A password of 40 code units: registration accepts it, login rejects it.\<close>

theorem password_length_bounds_witness:
  "registerValidator example_env example_db
       (credentials ''e@x.com'' ''0123456789012345678901234567890123456789'') =
     Inr \<lparr>payload_name = None, payload_email = js ''e@x.com'',
          payload_password = js ''0123456789012345678901234567890123456789''\<rparr>
   \<and> 33 \<le> length (js ''0123456789012345678901234567890123456789'')
   \<and> (\<exists>errs. login example_env example_db
         (credentials ''e@x.com'' ''0123456789012345678901234567890123456789'') =
           (Inl (ValidationError errs), example_db)
        \<and> (F_password, R_maxLength) \<in> set errs)"
proof -
  let ?pl = "\<lparr>payload_name = None, payload_email = js ''e@x.com'',
          payload_password = js ''0123456789012345678901234567890123456789''\<rparr>"
  have h: "registerValidator example_env example_db
       (credentials ''e@x.com'' ''0123456789012345678901234567890123456789'') = Inr ?pl"
    by (simp add: fixture_defs validator_defs)
  have l: "33 \<le> length (payload_password ?pl)"
    by (simp add: js_def)
  from h l password_length_bounds [of example_env example_db
      "credentials ''e@x.com'' ''0123456789012345678901234567890123456789''" ?pl example_db]
  show ?thesis by simp
qed

end
